theory Spec2Isabelle
  imports Main
begin

section \<open>The event handler of pykis (src/pykis/event/handler.py)\<close>

text \<open>
  The module is a publish/subscribe registry: a \<^verbatim>\<open>KisEventHandler\<close> owns a Python
  \<^verbatim>\<open>set\<close> of callbacks, \<^verbatim>\<open>invoke\<close> walks a copy of that set, and a
  \<^verbatim>\<open>KisEventTicket\<close> stands for one registration.

  Python callables are opaque to the module, so the model names each one by a reference
  (a number: the identity of the function object) and takes what calling it does from an
  environment. A callable may change anything, the handler included, and may raise; it is
  therefore a function from the whole state to an outcome that keeps the state reached
  when the exception left.
\<close>

subsection \<open>Data\<close>

type_synonym ref = nat

datatype exn = TypeError | UserError nat

datatype ('a, 'st) outcome =
    Returns (val: 'a) (post: 'st)
  | Raises (exc: exn) (post: 'st)

text \<open>
  The \<^verbatim>\<open>where\<close> attribute of a \<^verbatim>\<open>KisLambdaEventCallback\<close>: \<^verbatim>\<open>None\<close>, an object
  that passes \<^verbatim>\<open>isinstance(where, KisEventFilter)\<close> (it has a \<^verbatim>\<open>__filter__\<close>
  method), or any other callable.
\<close>

datatype where_clause = FilterObject ref | FilterCallable ref

text \<open>
  \<^verbatim>\<open>EventCallback = Callable | KisEventCallback\<close>. The only \<^verbatim>\<open>KisEventCallback\<close> class
  of the module is \<^verbatim>\<open>KisLambdaEventCallback\<close>; \<open>ident\<close> is the identity of the object,
  the other three are its attributes \<^verbatim>\<open>callback\<close>, \<^verbatim>\<open>where\<close> and \<^verbatim>\<open>once\<close>.
\<close>

datatype event_callback =
    Function ref
  | KisLambdaEventCallback (ident: nat) (callback: ref) (where_attr: "where_clause option")
      (once_attr: bool)

text \<open>
  The state: the set \<^verbatim>\<open>self.handlers\<close> of the one handler the claims speak of, the
  counter from which new objects take their identity, and everything else the callables
  can reach (\<open>world\<close>). A Python \<^verbatim>\<open>set\<close> has no order of its own; the list fixes one
  order of iteration, and every theorem below holds for any list.
\<close>

record 'u state =
  handlers :: "event_callback list"
  next_ident :: nat
  world :: 'u

record kis_event_ticket =
  ticket_callback :: event_callback
  unsubscribed_callbacks :: "ref list"

text \<open>
  What the callables do. \<open>call_function\<close> is \<^verbatim>\<open>f(sender, e)\<close>, \<open>call_filter_method\<close> is
  \<^verbatim>\<open>where.__filter__(handler, sender, e)\<close>, \<open>call_filter\<close> is \<^verbatim>\<open>where(sender, e)\<close>,
  \<open>call_unsubscribed\<close> is \<^verbatim>\<open>unsubscribed_callback(ticket)\<close>. \<open>release_method\<close> is
  \<^verbatim>\<open>pykis.utils.reference.release_method\<close>, which handler.py imports and whose source is
  not part of the files modelled here: it is a parameter like the user's callables.
\<close>

record ('s, 'e, 'u) env =
  call_function :: "ref \<Rightarrow> 's \<Rightarrow> 'e \<Rightarrow> 'u state \<Rightarrow> (unit, 'u state) outcome"
  call_filter_method :: "ref \<Rightarrow> 's \<Rightarrow> 'e \<Rightarrow> 'u state \<Rightarrow> (bool, 'u state) outcome"
  call_filter :: "ref \<Rightarrow> 's \<Rightarrow> 'e \<Rightarrow> 'u state \<Rightarrow> (bool, 'u state) outcome"
  call_unsubscribed :: "ref \<Rightarrow> kis_event_ticket \<Rightarrow> 'u state \<Rightarrow> (unit, 'u state) outcome"
  release_method :: "ref \<Rightarrow> 'u state \<Rightarrow> (unit, 'u state) outcome"

subsection \<open>Membership in the set of callbacks\<close>

text \<open>
  A Python set finds an element by its hash first, and among the elements with that hash
  by \<^verbatim>\<open>is\<close> or \<^verbatim>\<open>==\<close>.

  The hash: a function object hashes by its identity;
  \<^verbatim>\<open>KisLambdaEventCallback.__hash__\<close>, lines 127 and 128, hashes the pair of the wrapper's
  \<^verbatim>\<open>callback\<close> and \<^verbatim>\<open>where\<close>. \<open>hash_input\<close> is what the hash is computed from. The
  model takes two callbacks to hash alike exactly when their hash inputs are equal, that
  is, it takes the hash to tell different inputs apart. Callables are taken to be
  hashable, as functions, lambdas and methods are.
\<close>

datatype hash_key = HashFunction ref | HashPair ref "where_clause option"

fun hash_input :: "event_callback \<Rightarrow> hash_key" where
  "hash_input (Function f) = HashFunction f"
| "hash_input (KisLambdaEventCallback i f w b) = HashPair f w"

text \<open>
  The comparison: \<^verbatim>\<open>KisLambdaEventCallback\<close> defines no \<^verbatim>\<open>__eq__\<close>, so \<^verbatim>\<open>==\<close> on two
  wrappers is the default of \<^verbatim>\<open>object\<close>, identity. Two function references are equal
  when they are the same reference; a function is never equal to a wrapper.
\<close>

fun py_eq :: "event_callback \<Rightarrow> event_callback \<Rightarrow> bool" where
  "py_eq (Function f) (Function g) = (f = g)"
| "py_eq (KisLambdaEventCallback i f w b) (KisLambdaEventCallback j g v c) = (i = j)"
| "py_eq (Function f) (KisLambdaEventCallback j g v c) = False"
| "py_eq (KisLambdaEventCallback i f w b) (Function g) = False"

text \<open>The element \<open>k\<close> of a set is the one a lookup of \<open>h\<close> finds: same hash, then equal.\<close>

definition set_match :: "event_callback \<Rightarrow> event_callback \<Rightarrow> bool" where
  "set_match k h = (hash_input k = hash_input h \<and> py_eq k h)"

text \<open>\<^verbatim>\<open>x in s\<close>, \<^verbatim>\<open>s.add(x)\<close> and the effect of \<^verbatim>\<open>s.remove(x)\<close> when it does not raise.\<close>

definition set_contains :: "event_callback \<Rightarrow> event_callback list \<Rightarrow> bool" where
  "set_contains h hs = list_ex (\<lambda>k. set_match k h) hs"

definition set_add :: "event_callback \<Rightarrow> event_callback list \<Rightarrow> event_callback list" where
  "set_add h hs = (if set_contains h hs then hs else hs @ [h])"

definition set_discard :: "event_callback \<Rightarrow> event_callback list \<Rightarrow> event_callback list" where
  "set_discard h hs = filter (\<lambda>k. \<not> set_match k h) hs"

subsection \<open>KisLambdaEventCallback\<close>

text \<open>\<^verbatim>\<open>__filter__\<close>, lines 107 to 115.\<close>

fun lambda_filter ::
  "('s, 'e, 'u) env \<Rightarrow> where_clause option \<Rightarrow> 's \<Rightarrow> 'e \<Rightarrow> 'u state \<Rightarrow> (bool, 'u state) outcome"
where
  "lambda_filter E None s e \<sigma> = Returns True \<sigma>"
| "lambda_filter E (Some (FilterObject r)) s e \<sigma> = call_filter_method E r s e \<sigma>"
| "lambda_filter E (Some (FilterCallable r)) s e \<sigma> = call_filter E r s e \<sigma>"

text \<open>\<^verbatim>\<open>__del__\<close>, lines 130 and 131: \<^verbatim>\<open>release_method(self.callback)\<close>.\<close>

definition lambda_del :: "('s, 'e, 'u) env \<Rightarrow> ref \<Rightarrow> 'u state \<Rightarrow> (unit, 'u state) outcome" where
  "lambda_del E f \<sigma> = release_method E f \<sigma>"

subsection \<open>KisEventHandler\<close>

text \<open>\<^verbatim>\<open>__init__\<close>: \<^verbatim>\<open>self.handlers = set(handlers)\<close>.\<close>

definition init :: "event_callback list \<Rightarrow> nat \<Rightarrow> 'u \<Rightarrow> 'u state" where
  "init hs n u = \<lparr>handlers = fold set_add hs [], next_ident = n, world = u\<rparr>"

text \<open>
  \<^verbatim>\<open>add\<close>, lines 215 to 218. The ticket it returns starts with no unsubscribed callbacks.
  What becomes of the callback when that ticket is dropped is \<open>ticket_del\<close> below.
\<close>

definition add :: "event_callback \<Rightarrow> 'u state \<Rightarrow> kis_event_ticket \<times> 'u state" where
  "add h \<sigma> =
     (\<lparr>ticket_callback = h, unsubscribed_callbacks = []\<rparr>,
      \<sigma>\<lparr>handlers := set_add h (handlers \<sigma>)\<rparr>)"

text \<open>\<^verbatim>\<open>on\<close>, lines 220 to 240: a new \<^verbatim>\<open>KisLambdaEventCallback\<close> object, then \<^verbatim>\<open>add\<close>.\<close>

definition on :: "ref \<Rightarrow> where_clause option \<Rightarrow> bool \<Rightarrow> 'u state \<Rightarrow> kis_event_ticket \<times> 'u state" where
  "on f w b \<sigma> =
     add (KisLambdaEventCallback (next_ident \<sigma>) f w b) (\<sigma>\<lparr>next_ident := Suc (next_ident \<sigma>)\<rparr>)"

text \<open>\<^verbatim>\<open>once\<close>, lines 242 to 258.\<close>

definition once :: "ref \<Rightarrow> where_clause option \<Rightarrow> 'u state \<Rightarrow> kis_event_ticket \<times> 'u state" where
  "once f w \<sigma> = on f w True \<sigma>"

text \<open>
  The first half of \<^verbatim>\<open>remove\<close>, lines 262 to 268: for a \<^verbatim>\<open>KisEventCallback\<close> its
  \<^verbatim>\<open>__del__\<close>, for a plain callable \<^verbatim>\<open>release_method(handler)\<close>.
\<close>

fun release_hook :: "('s, 'e, 'u) env \<Rightarrow> event_callback \<Rightarrow> 'u state \<Rightarrow> (unit, 'u state) outcome" where
  "release_hook E (KisLambdaEventCallback i f w b) \<sigma> = lambda_del E f \<sigma>"
| "release_hook E (Function f) \<sigma> = release_method E f \<sigma>"

text \<open>
  \<^verbatim>\<open>remove\<close>, lines 260 to 273. The hook is called outside the \<^verbatim>\<open>try\<close>: when it raises,
  the exception leaves \<^verbatim>\<open>remove\<close> before \<^verbatim>\<open>self.handlers.remove\<close> is reached. The
  \<^verbatim>\<open>KeyError\<close> of an absent element is caught, so the second half never raises.
\<close>

definition remove :: "('s, 'e, 'u) env \<Rightarrow> event_callback \<Rightarrow> 'u state \<Rightarrow> (unit, 'u state) outcome" where
  "remove E h \<sigma> =
     (case release_hook E h \<sigma> of
        Raises x \<sigma>' \<Rightarrow> Raises x \<sigma>'
      | Returns u \<sigma>' \<Rightarrow> Returns () (\<sigma>'\<lparr>handlers := set_discard h (handlers \<sigma>')\<rparr>))"

text \<open>\<^verbatim>\<open>clear\<close>, lines 275 to 277.\<close>

definition clear :: "'u state \<Rightarrow> 'u state" where
  "clear \<sigma> = \<sigma>\<lparr>handlers := []\<rparr>"

text \<open>\<^verbatim>\<open>__len__\<close> and \<^verbatim>\<open>__contains__\<close>.\<close>

definition len :: "'u state \<Rightarrow> nat" where
  "len \<sigma> = length (handlers \<sigma>)"

definition contains :: "event_callback \<Rightarrow> 'u state \<Rightarrow> bool" where
  "contains h \<sigma> = set_contains h (handlers \<sigma>)"

subsection \<open>Dispatch\<close>

text \<open>
  To say which callables a pass called, the dispatch functions carry a log beside the
  state: one entry (the registered callback, the sender, the event) for each call of a
  callback's function, appended when the call is made. The callables themselves get the
  state only, so they cannot write the log.
\<close>

type_synonym ('s, 'e) call = "event_callback \<times> 's \<times> 'e"

definition call_logged ::
  "('s, 'e, 'u) env \<Rightarrow> event_callback \<Rightarrow> ref \<Rightarrow> 's \<Rightarrow> 'e \<Rightarrow> ('s, 'e) call list \<times> 'u state
     \<Rightarrow> (unit, ('s, 'e) call list \<times> 'u state) outcome"
where
  "call_logged E h f s e r =
     (case call_function E f s e (snd r) of
        Raises x \<sigma>' \<Rightarrow> Raises x (fst r @ [(h, s, e)], \<sigma>')
      | Returns u \<sigma>' \<Rightarrow> Returns () (fst r @ [(h, s, e)], \<sigma>'))"

text \<open>
  \<^verbatim>\<open>KisLambdaEventCallback.__callback__\<close>, lines 117 to 121: a one-shot callback removes
  itself from the handler, then the function is called.
\<close>

definition lambda_callback ::
  "('s, 'e, 'u) env \<Rightarrow> event_callback \<Rightarrow> 's \<Rightarrow> 'e \<Rightarrow> ('s, 'e) call list \<times> 'u state
     \<Rightarrow> (unit, ('s, 'e) call list \<times> 'u state) outcome"
where
  "lambda_callback E h s e r =
     (case (if once_attr h then remove E h (snd r) else Returns () (snd r)) of
        Raises x \<sigma>' \<Rightarrow> Raises x (fst r, \<sigma>')
      | Returns u \<sigma>' \<Rightarrow> call_logged E h (callback h) s e (fst r, \<sigma>'))"

text \<open>The body of the loop of \<^verbatim>\<open>invoke\<close>, lines 282 to 286.\<close>

fun deliver ::
  "('s, 'e, 'u) env \<Rightarrow> 's \<Rightarrow> 'e \<Rightarrow> event_callback \<Rightarrow> ('s, 'e) call list \<times> 'u state
     \<Rightarrow> (unit, ('s, 'e) call list \<times> 'u state) outcome"
where
  "deliver E s e (KisLambdaEventCallback i f w b) r =
     (case lambda_filter E w s e (snd r) of
        Raises x \<sigma>' \<Rightarrow> Raises x (fst r, \<sigma>')
      | Returns veto \<sigma>' \<Rightarrow>
          if \<not> veto then lambda_callback E (KisLambdaEventCallback i f w b) s e (fst r, \<sigma>')
          else Returns () (fst r, \<sigma>'))"
| "deliver E s e (Function f) r = call_logged E (Function f) f s e r"

text \<open>The loop over the copy: an exception ends the pass.\<close>

fun dispatch ::
  "('s, 'e, 'u) env \<Rightarrow> 's \<Rightarrow> 'e \<Rightarrow> event_callback list \<Rightarrow> ('s, 'e) call list \<times> 'u state
     \<Rightarrow> (unit, ('s, 'e) call list \<times> 'u state) outcome"
where
  "dispatch E s e [] r = Returns () r"
| "dispatch E s e (h # hs) r =
     (case deliver E s e h r of
        Raises x r' \<Rightarrow> Raises x r'
      | Returns u r' \<Rightarrow> dispatch E s e hs r')"

text \<open>\<^verbatim>\<open>invoke\<close>, lines 279 to 286: the loop runs over \<^verbatim>\<open>self.handlers.copy()\<close>.\<close>

definition invoke ::
  "('s, 'e, 'u) env \<Rightarrow> 's \<Rightarrow> 'e \<Rightarrow> 'u state \<Rightarrow> (unit, ('s, 'e) call list \<times> 'u state) outcome"
where
  "invoke E s e \<sigma> = dispatch E s e (handlers \<sigma>) ([], \<sigma>)"

subsection \<open>KisEventTicket\<close>

text \<open>
  A ticket is a value: the callback it stands for and its list of unsubscribed callbacks
  (its handler is the one handler of the state). A ticket that a caller holds has no
  effect of its own; the effect of dropping one is \<open>ticket_del\<close>, at the end of this
  subsection.
\<close>

text \<open>\<^verbatim>\<open>registered\<close>, lines 165 to 168: \<^verbatim>\<open>self.callback in self.handler\<close>.\<close>

definition registered :: "kis_event_ticket \<Rightarrow> 'u state \<Rightarrow> bool" where
  "registered t \<sigma> = contains (ticket_callback t) \<sigma>"

text \<open>\<^verbatim>\<open>once\<close> of a ticket, lines 160 to 163.\<close>

fun ticket_once :: "kis_event_ticket \<Rightarrow> bool" where
  "ticket_once t =
     (case ticket_callback t of
        KisLambdaEventCallback i f w b \<Rightarrow> b
      | Function f \<Rightarrow> False)"

text \<open>
  The loop of \<^verbatim>\<open>unsubscribe\<close>, lines 175 and 176, with a log of the unsubscribed callbacks
  it calls (each with the ticket as its argument).
\<close>

fun notify_unsubscribed ::
  "('s, 'e, 'u) env \<Rightarrow> kis_event_ticket \<Rightarrow> ref list \<Rightarrow> (ref \<times> kis_event_ticket) list \<times> 'u state
     \<Rightarrow> (unit, (ref \<times> kis_event_ticket) list \<times> 'u state) outcome"
where
  "notify_unsubscribed E t [] r = Returns () r"
| "notify_unsubscribed E t (c # cs) r =
     (case call_unsubscribed E c t (snd r) of
        Raises x \<sigma>' \<Rightarrow> Raises x (fst r @ [(c, t)], \<sigma>')
      | Returns u \<sigma>' \<Rightarrow> notify_unsubscribed E t cs (fst r @ [(c, t)], \<sigma>'))"

text \<open>
  \<^verbatim>\<open>unsubscribe\<close>, lines 170 to 176: \<^verbatim>\<open>remove\<close> first, and the test of
  \<^verbatim>\<open>self.registered\<close> after it.
\<close>

definition unsubscribe ::
  "('s, 'e, 'u) env \<Rightarrow> kis_event_ticket \<Rightarrow> 'u state
     \<Rightarrow> (unit, (ref \<times> kis_event_ticket) list \<times> 'u state) outcome"
where
  "unsubscribe E t \<sigma> =
     (case remove E (ticket_callback t) \<sigma> of
        Raises x \<sigma>' \<Rightarrow> Raises x ([], \<sigma>')
      | Returns u \<sigma>' \<Rightarrow>
          if registered t \<sigma>' then notify_unsubscribed E t (unsubscribed_callbacks t) ([], \<sigma>')
          else Returns () ([], \<sigma>'))"


subsection \<open>Hashing\<close>

text \<open>
  Python's \<^verbatim>\<open>hash\<close> of a \<^verbatim>\<open>set\<close> object raises \<^verbatim>\<open>TypeError\<close> (the type is unhashable),
  whatever the set holds. The hash of a tuple hashes its items from left to right and
  combines the results; the first item whose hash raises ends it. How function objects
  hash (\<open>href\<close>) and how a tuple combines (\<open>mix\<close>) are parameters.
\<close>

definition hash_set :: "event_callback list \<Rightarrow> exn + int" where
  "hash_set hs = Inl TypeError"

definition hash_pair :: "(int \<Rightarrow> int \<Rightarrow> int) \<Rightarrow> exn + int \<Rightarrow> exn + int \<Rightarrow> exn + int" where
  "hash_pair mix a b =
     (case a of
        Inl x \<Rightarrow> Inl x
      | Inr m \<Rightarrow> (case b of Inl y \<Rightarrow> Inl y | Inr n \<Rightarrow> Inr (mix m n)))"

text \<open>\<^verbatim>\<open>KisEventHandler.__hash__\<close>, lines 327 and 328.\<close>

definition handler_hash :: "'u state \<Rightarrow> exn + int" where
  "handler_hash \<sigma> = hash_set (handlers \<sigma>)"

text \<open>
  The hash of a filter (\<^verbatim>\<open>None\<close> hashes to a constant; \<^verbatim>\<open>KisLambdaEventFilter.__hash__\<close>,
  lines 68 and 69, is the hash of its function) and \<^verbatim>\<open>KisLambdaEventCallback.__hash__\<close>,
  lines 127 and 128.
\<close>

fun where_hash :: "(ref \<Rightarrow> int) \<Rightarrow> int \<Rightarrow> where_clause option \<Rightarrow> exn + int" where
  "where_hash href hnone None = Inr hnone"
| "where_hash href hnone (Some (FilterObject r)) = Inr (href r)"
| "where_hash href hnone (Some (FilterCallable r)) = Inr (href r)"

fun callback_hash ::
  "(ref \<Rightarrow> int) \<Rightarrow> int \<Rightarrow> (int \<Rightarrow> int \<Rightarrow> int) \<Rightarrow> event_callback \<Rightarrow> exn + int"
where
  "callback_hash href hnone mix (Function f) = Inr (href f)"
| "callback_hash href hnone mix (KisLambdaEventCallback i f w b) =
     hash_pair mix (Inr (href f)) (where_hash href hnone w)"

text \<open>\<^verbatim>\<open>KisEventTicket.__hash__\<close>, lines 202 and 203: \<^verbatim>\<open>hash((self.handler, self.callback))\<close>.\<close>

definition ticket_hash ::
  "(ref \<Rightarrow> int) \<Rightarrow> int \<Rightarrow> (int \<Rightarrow> int \<Rightarrow> int) \<Rightarrow> kis_event_ticket \<Rightarrow> 'u state \<Rightarrow> exn + int"
where
  "ticket_hash href hnone mix t \<sigma> =
     hash_pair mix (handler_hash \<sigma>) (callback_hash href hnone mix (ticket_callback t))"

subsection \<open>Concrete callables\<close>

text \<open>
  Environments for the concrete runs below. In \<open>quiet_env\<close> every callable returns at once
  and changes nothing, and every filter answers \<^verbatim>\<open>False\<close>. In \<open>failing_env\<close> the
  release hook raises. In \<open>adding_env\<close> the function with reference 0 registers the plain
  function with reference 1 on the handler, and keeps the ticket. In \<open>dropping_env\<close> it
  does the same and drops the ticket (\<^verbatim>\<open>lambda s, e: H.add(B)\<close>). In \<open>flaky_env\<close> the
  world counts the calls of the release hook, which returns the first time and raises
  from then on.
\<close>

definition quiet_env :: "(unit, unit, unit) env" where
  "quiet_env =
     \<lparr>call_function = (\<lambda>r s e \<sigma>. Returns () \<sigma>),
      call_filter_method = (\<lambda>r s e \<sigma>. Returns False \<sigma>),
      call_filter = (\<lambda>r s e \<sigma>. Returns False \<sigma>),
      call_unsubscribed = (\<lambda>r t \<sigma>. Returns () \<sigma>),
      release_method = (\<lambda>r \<sigma>. Returns () \<sigma>)\<rparr>"

definition failing_env :: "(unit, unit, unit) env" where
  "failing_env = quiet_env\<lparr>release_method := (\<lambda>r \<sigma>. Raises (UserError 0) \<sigma>)\<rparr>"




text \<open>
  The scenario of the specification: \<^verbatim>\<open>results\<close> is the world, the subscribed function
  (reference 0) is \<^verbatim>\<open>lambda s, e: results.append(e)\<close>, the filter (reference 1) is
  \<^verbatim>\<open>lambda s, e: e < 0\<close>. A lambda has no \<^verbatim>\<open>__filter__\<close> attribute, so it is a
  \<open>FilterCallable\<close>. The sender is \<^verbatim>\<open>None\<close>.
\<close>

definition scenario_env :: "(unit option, int, int list) env" where
  "scenario_env =
     \<lparr>call_function = (\<lambda>r s e \<sigma>. Returns () (\<sigma>\<lparr>world := world \<sigma> @ [e]\<rparr>)),
      call_filter_method = (\<lambda>r s e \<sigma>. Returns (e < 0) \<sigma>),
      call_filter = (\<lambda>r s e \<sigma>. Returns (e < 0) \<sigma>),
      call_unsubscribed = (\<lambda>r t \<sigma>. Returns () \<sigma>),
      release_method = (\<lambda>r \<sigma>. Returns () \<sigma>)\<rparr>"

definition scenario_subscribed :: "int list state" where
  "scenario_subscribed = snd (on 0 (Some (FilterCallable 1)) False (init [] 0 []))"

section \<open>Properties\<close>

subsection \<open>The set of callbacks\<close>


lemma set_match_sym: "set_match a b = set_match b a"
  by (cases a; cases b) (auto simp: set_match_def)

lemma set_match_trans: "set_match a b \<Longrightarrow> set_match b c \<Longrightarrow> set_match a c"
  by (cases a; cases b; cases c) (auto simp: set_match_def)






subsection \<open>Subscriptions without a filter\<close>

text \<open>
  C1. The claim: after \<^verbatim>\<open>t = H.on(fn)\<close> with no filter, every \<^verbatim>\<open>H.invoke(sender, e)\<close>
  calls \<^verbatim>\<open>fn(sender, e)\<close>, the absent filter allowing every event. In the code
  \<^verbatim>\<open>__filter__\<close> answers \<^verbatim>\<open>True\<close> when \<^verbatim>\<open>where\<close> is \<^verbatim>\<open>None\<close>, and \<^verbatim>\<open>invoke\<close> calls
  \<^verbatim>\<open>__callback__\<close> only on the answer \<^verbatim>\<open>False\<close> (the docstring of \<^verbatim>\<open>__filter__\<close>:
  \<^verbatim>\<open>True\<close> ignores the event). So on a new handler, whatever the callables do, the pass
  after \<^verbatim>\<open>H.on(fn)\<close> returns with an empty log and an unchanged state: \<^verbatim>\<open>fn\<close> is not
  called.
\<close>

theorem on_without_filter_is_never_called:
  "invoke E s e (snd (on f None False (init [] n u)))
     = Returns () ([], snd (on f None False (init [] n u)))"
  by (simp add: invoke_def on_def add_def init_def set_add_def set_contains_def set_match_def)

text \<open>
  C2. The claim: after \<^verbatim>\<open>t = H.once(cb)\<close> with no filter, one \<^verbatim>\<open>H.invoke(s, e)\<close> calls
  \<^verbatim>\<open>cb\<close> once and leaves \<^verbatim>\<open>t.registered == False\<close>, and a second pass leaves the count
  at 1. In the code the pass does not reach \<^verbatim>\<open>__callback__\<close>, for the reason given under
  C1: \<^verbatim>\<open>cb\<close> is not called, nothing is removed, and the ticket is still registered.
\<close>

theorem once_without_filter_stays_registered:
  "invoke E s e (snd (once f None (init [] n u)))
     = Returns () ([], snd (once f None (init [] n u)))
   \<and> registered (fst (once f None (init [] n u))) (snd (once f None (init [] n u)))"
  by (simp add: invoke_def once_def on_def add_def init_def set_add_def set_contains_def set_match_def
      registered_def contains_def)

subsection \<open>The scenario with a filter on negative events\<close>

text \<open>
  C3, as the code has it. With \<^verbatim>\<open>where=lambda s, e: e < 0\<close> the event 5 is delivered
  (the filter answers \<^verbatim>\<open>False\<close>) and the event -1 is not (the filter answers
  \<^verbatim>\<open>True\<close>, which vetoes): after \<^verbatim>\<open>H.invoke(None, 5)\<close> the list \<^verbatim>\<open>results\<close> is [5], and
  after a further \<^verbatim>\<open>H.invoke(None, -1)\<close> it is still [5].
\<close>

theorem scenario_results:
  "world (snd (post (invoke scenario_env None 5 scenario_subscribed))) = [5]
   \<and> world (snd (post (invoke scenario_env None (- 1)
        (snd (post (invoke scenario_env None 5 scenario_subscribed)))))) = [5]"
  by (simp add: invoke_def scenario_env_def scenario_subscribed_def on_def add_def init_def
      set_add_def set_contains_def set_match_def lambda_callback_def call_logged_def)

text \<open>
  C3 as the specification words it (\<^verbatim>\<open>results == []\<close> after the first pass,
  \<^verbatim>\<open>results == [-1]\<close> after the second) does not hold of the code.
\<close>

theorem scenario_counterexample:
  "\<not> (world (snd (post (invoke scenario_env None 5 scenario_subscribed))) = []
   \<and> world (snd (post (invoke scenario_env None (- 1)
        (snd (post (invoke scenario_env None 5 scenario_subscribed)))))) = [- 1])"
  by (simp add: invoke_def scenario_env_def scenario_subscribed_def on_def add_def init_def
      set_add_def set_contains_def set_match_def lambda_callback_def call_logged_def)

subsection \<open>Filter polarity\<close>

lemma dispatch_append:
  "dispatch E s e (xs @ ys) r =
     (case dispatch E s e xs r of
        Raises x r' \<Rightarrow> Raises x r'
      | Returns u r' \<Rightarrow> dispatch E s e ys r')"
  by (induction xs arbitrary: r) (auto split: outcome.splits)

lemma deliver_filtered:
  assumes "wc = FilterCallable q \<and> call_filter E q s e (snd r) = Returns veto \<sigma>1
         \<or> wc = FilterObject q \<and> call_filter_method E q s e (snd r) = Returns veto \<sigma>1"
  shows "deliver E s e (KisLambdaEventCallback i f (Some wc) b) r =
     (if veto then Returns () (fst r, \<sigma>1)
      else (case (if b then remove E (KisLambdaEventCallback i f (Some wc) b) \<sigma>1
                  else Returns () \<sigma>1) of
              Raises x \<sigma>2 \<Rightarrow> Raises x (fst r, \<sigma>2)
            | Returns u \<sigma>2 \<Rightarrow>
                (case call_function E f s e \<sigma>2 of
                   Raises x \<sigma>3 \<Rightarrow>
                     Raises x (fst r @ [(KisLambdaEventCallback i f (Some wc) b, s, e)], \<sigma>3)
                 | Returns u \<sigma>3 \<Rightarrow>
                     Returns () (fst r @ [(KisLambdaEventCallback i f (Some wc) b, s, e)], \<sigma>3))))"
  using assms
  by (auto simp: lambda_callback_def call_logged_def split: outcome.splits)

text \<open>
  C4. Take a subscription that carries a filter, at any place in the handler's set, and a
  pass that reaches it: the callbacks before it returned, leaving the log and the state
  \<open>r1\<close>. The pass then calls the subscription's own filter (\<^verbatim>\<open>where(sender, e)\<close>, or
  \<^verbatim>\<open>where.__filter__(handler, sender, e)\<close> for a filter object) in that state. When the
  filter returns \<^verbatim>\<open>True\<close> the action is not run: the pass goes on to the remaining
  callbacks with the log unchanged and the state the filter left. When the filter returns
  \<^verbatim>\<open>False\<close> the action is run: a one-shot subscription is removed first (an exception
  of the removal ends the pass), then the subscription's function is called with the sender
  and the event, the call is logged, and the pass goes on from the state the function left
  or ends with the function's exception.
\<close>

theorem filter_polarity:
  assumes "handlers \<sigma> = pre @ KisLambdaEventCallback i f (Some wc) b # rest"
    and "dispatch E s e pre ([], \<sigma>) = Returns () r1"
    and "wc = FilterCallable q \<and> call_filter E q s e (snd r1) = Returns veto \<sigma>1
         \<or> wc = FilterObject q \<and> call_filter_method E q s e (snd r1) = Returns veto \<sigma>1"
  shows "invoke E s e \<sigma> =
     (if veto then dispatch E s e rest (fst r1, \<sigma>1)
      else (case (if b then remove E (KisLambdaEventCallback i f (Some wc) b) \<sigma>1
                  else Returns () \<sigma>1) of
              Raises x \<sigma>2 \<Rightarrow> Raises x (fst r1, \<sigma>2)
            | Returns u \<sigma>2 \<Rightarrow>
                (case call_function E f s e \<sigma>2 of
                   Raises x \<sigma>3 \<Rightarrow>
                     Raises x (fst r1 @ [(KisLambdaEventCallback i f (Some wc) b, s, e)], \<sigma>3)
                 | Returns u \<sigma>3 \<Rightarrow>
                     dispatch E s e rest
                       (fst r1 @ [(KisLambdaEventCallback i f (Some wc) b, s, e)], \<sigma>3))))"
proof -
  have "invoke E s e \<sigma> =
      (case deliver E s e (KisLambdaEventCallback i f (Some wc) b) r1 of
         Raises x r' \<Rightarrow> Raises x r'
       | Returns u r' \<Rightarrow> dispatch E s e rest r')"
    using assms(1,2) by (simp add: invoke_def dispatch_append)
  then show ?thesis
    unfolding deliver_filtered [OF assms(3)]
    by (auto split: outcome.splits)
qed

theorem filter_polarity_witness:
  "invoke scenario_env None 5 scenario_subscribed
     = Returns ()
         ([(KisLambdaEventCallback 0 0 (Some (FilterCallable 1)) False, None, 5)],
          scenario_subscribed\<lparr>world := [5]\<rparr>)
   \<and> invoke scenario_env None (- 1) scenario_subscribed = Returns () ([], scenario_subscribed)"
proof -
  have h: "handlers scenario_subscribed
             = [] @ KisLambdaEventCallback 0 0 (Some (FilterCallable 1)) False # []"
    by (simp add: scenario_subscribed_def on_def add_def init_def set_add_def set_contains_def)
  have p: "\<And>e. dispatch scenario_env None e [] ([], scenario_subscribed)
             = Returns () ([], scenario_subscribed)"
    by simp
  have v: "\<And>e. FilterCallable 1 = FilterCallable 1
             \<and> call_filter scenario_env 1 None e (snd ([], scenario_subscribed))
                 = Returns (e < 0) scenario_subscribed
           \<or> FilterCallable 1 = FilterObject 1
             \<and> call_filter_method scenario_env 1 None e (snd ([], scenario_subscribed))
                 = Returns (e < 0) scenario_subscribed"
    by (simp add: scenario_env_def)
  have c: "call_function scenario_env 0 None 5 scenario_subscribed
             = Returns () (scenario_subscribed\<lparr>world := [5]\<rparr>)"
    by (simp add: scenario_env_def scenario_subscribed_def on_def add_def init_def)
  from filter_polarity [OF h p v, of 5] filter_polarity [OF h p v, of "- 1"] c
  show ?thesis by simp
qed

subsection \<open>A pass runs over a copy of the set\<close>








subsection \<open>Removal\<close>

text \<open>
  C8, as the code has it. \<^verbatim>\<open>remove\<close> calls the release hook first. When the hook returns,
  the callback is then taken out of the set the hook left. When the hook raises, the
  exception leaves \<^verbatim>\<open>remove\<close> at once, in the state the hook left: the removal from the set
  is not attempted.
\<close>

theorem remove_hook_then_discard:
  "(release_hook E h \<sigma> = Returns () \<sigma>' \<longrightarrow>
      remove E h \<sigma> = Returns () (\<sigma>'\<lparr>handlers := set_discard h (handlers \<sigma>')\<rparr>))
   \<and> (release_hook E h \<sigma> = Raises x \<sigma>' \<longrightarrow> remove E h \<sigma> = Raises x \<sigma>')"
  by (simp add: remove_def)

theorem remove_hook_then_discard_witness:
  "remove quiet_env (KisLambdaEventCallback 0 0 None False)
      (snd (on 0 None False (init [] 0 ())))
     = Returns () ((snd (on 0 None False (init [] 0 ())))\<lparr>handlers := []\<rparr>)
   \<and> remove failing_env (Function 3) (snd (add (Function 3) (init [] 0 ())))
     = Raises (UserError 0) (snd (add (Function 3) (init [] 0 ())))"
proof -
  have a: "release_hook quiet_env (KisLambdaEventCallback 0 0 None False)
             (snd (on 0 None False (init [] 0 ())))
           = Returns () (snd (on 0 None False (init [] 0 ())))"
    by (simp add: quiet_env_def lambda_del_def)
  have b: "release_hook failing_env (Function 3) (snd (add (Function 3) (init [] 0 ())))
           = Raises (UserError 0) (snd (add (Function 3) (init [] 0 ())))"
    by (simp add: failing_env_def quiet_env_def)
  have c: "set_discard (KisLambdaEventCallback 0 0 None False)
             (handlers (snd (on 0 None False (init [] 0 ())))) = []"
    by (simp add: on_def add_def init_def set_add_def set_contains_def set_match_def set_discard_def)
  from remove_hook_then_discard
    [of quiet_env "KisLambdaEventCallback 0 0 None False" "snd (on 0 None False (init [] 0 ()))"
      "snd (on 0 None False (init [] 0 ()))"] a c
  have d: "remove quiet_env (KisLambdaEventCallback 0 0 None False)
      (snd (on 0 None False (init [] 0 ())))
     = Returns () ((snd (on 0 None False (init [] 0 ())))\<lparr>handlers := []\<rparr>)"
    by simp
  from remove_hook_then_discard
    [of failing_env "Function 3" "snd (add (Function 3) (init [] 0 ()))" _ "UserError 0"] b
  have e: "remove failing_env (Function 3) (snd (add (Function 3) (init [] 0 ())))
     = Raises (UserError 0) (snd (add (Function 3) (init [] 0 ())))"
    by blast
  from d e show ?thesis by simp
qed

text \<open>
  C8 as the specification words it (the removal is attempted even when the hook raised)
  does not hold of the code: with a hook that raises, \<^verbatim>\<open>remove\<close> raises and the wrapper
  is still in the set.
\<close>

theorem remove_after_raising_hook_counterexample:
  "remove failing_env (KisLambdaEventCallback 0 0 None False)
      (snd (on 0 None False (init [] 0 ())))
     = Raises (UserError 0) (snd (on 0 None False (init [] 0 ())))
   \<and> contains (KisLambdaEventCallback 0 0 None False)
       (post (remove failing_env (KisLambdaEventCallback 0 0 None False)
          (snd (on 0 None False (init [] 0 ())))))"
  by (simp add: remove_def failing_env_def quiet_env_def lambda_del_def on_def add_def init_def
      set_add_def set_contains_def set_match_def contains_def)




subsection \<open>Unsubscription\<close>

text \<open>
  C5. The claim: \<^verbatim>\<open>unsubscribe\<close> calls the ticket's unsubscribed callbacks if and only
  if the callback was in the set when it was called. The code tests \<^verbatim>\<open>self.registered\<close>
  after \<^verbatim>\<open>self.handler.remove\<close>, when the callback is no longer in the set. So for a
  ticket that is registered, with a release hook that returns at once, \<^verbatim>\<open>unsubscribe\<close>
  removes the callback and calls none of the ticket's unsubscribed callbacks (the log is
  empty), however many there are.
\<close>

theorem unsubscribe_skips_unsubscribed_callbacks:
  "registered (fst (on f w b (init [] n u))) (snd (on f w b (init [] n u)))
   \<and> unsubscribe (E\<lparr>release_method := (\<lambda>r \<tau>. Returns () \<tau>)\<rparr>)
        ((fst (on f w b (init [] n u)))\<lparr>unsubscribed_callbacks := c # cs\<rparr>)
        (snd (on f w b (init [] n u)))
     = Returns () ([], (snd (on f w b (init [] n u)))\<lparr>handlers := []\<rparr>)"
  by (simp add: unsubscribe_def remove_def registered_def contains_def on_def add_def init_def
      set_add_def set_contains_def set_match_def set_discard_def lambda_del_def)

subsection \<open>Identity of wrappers in the set\<close>

text \<open>
  C6. The claim: two wrappers built from the same function and the same filter are one
  member of the set, so that adding the second leaves the size at 1 and \<^verbatim>\<open>remove\<close> with
  an equal-valued wrapper removes the registered one. The code gives the wrapper a hash
  over its function and its filter (lines 127 and 128) and no \<^verbatim>\<open>__eq__\<close>, so the two
  hash alike and then compare by identity, unequal. After two calls of \<^verbatim>\<open>on\<close> with the
  same function and the same filter the size is 2; and after one call, \<^verbatim>\<open>remove\<close> with a
  second wrapper of the same function and filter leaves the registered one in the set.
\<close>

theorem equal_valued_wrappers_are_two_members:
  "len (snd (on 0 (Some (FilterCallable 1)) False
         (snd (on 0 (Some (FilterCallable 1)) False (init [] 0 ()))))) = 2
   \<and> contains (KisLambdaEventCallback 0 0 (Some (FilterCallable 1)) False)
       (post (remove quiet_env (KisLambdaEventCallback 1 0 (Some (FilterCallable 1)) False)
          (snd (on 0 (Some (FilterCallable 1)) False (init [] 0 ())))))"
  by (simp add: len_def remove_def quiet_env_def lambda_del_def on_def add_def init_def
      set_add_def set_contains_def set_match_def set_discard_def contains_def)

subsection \<open>Hashing handlers and tickets\<close>

text \<open>
  C10. The hash of a handler raises \<^verbatim>\<open>TypeError\<close>, since \<^verbatim>\<open>__hash__\<close> hashes the set
  \<^verbatim>\<open>self.handlers\<close>; the hash of a ticket hashes the pair of its handler and its callback,
  the handler first, and so raises the same error. Neither can be a member of a hashed
  collection.
\<close>

theorem handler_and_ticket_unhashable:
  "handler_hash \<sigma> = Inl TypeError \<and> ticket_hash href hnone mix t \<sigma> = Inl TypeError"
  by (simp add: handler_hash_def ticket_hash_def hash_set_def hash_pair_def)

end
